theory Spec2Isabelle
  imports Complex_Main "HOL-Library.Word" "HOL-Library.Monad_Syntax"
begin

section \<open>The extended Kalman filter of src/src/imu/ekf.cpp\<close>

text \<open>
  The filter is written against Eigen's single-precision types. The embedding reads a
  \<open>float\<close> as a real number: sums, products, square roots, sines and cosines are exact,
  and rounding, overflow and NaN are outside the model. What the model keeps apart from
  exact arithmetic is a division whose divisor is zero: every division by a computed
  value is a checked one, and a function that would divide by zero returns \<open>None\<close>
  instead of a value. The timestamps are \<open>unsigned long\<close> values of 64 bits, whose
  subtraction wraps around.

  Eigen is a library outside the repository. The functions of Eigen that \<open>ekf.cpp\<close>
  calls are written here as Eigen 3.3 implements them, under the names Eigen gives them.
\<close>

subsection \<open>Fixed-size Eigen values\<close>

type_synonym Vector3f = "real \<times> real \<times> real"

text \<open>A \<open>Matrix3f\<close> is held as its three rows, a \<open>Matrix4f\<close> as its four rows.\<close>

type_synonym Matrix3f = "Vector3f \<times> Vector3f \<times> Vector3f"

type_synonym Vector4f = "real \<times> real \<times> real \<times> real"

type_synonym Matrix4f = "Vector4f \<times> Vector4f \<times> Vector4f \<times> Vector4f"

text \<open>\<open>Eigen::Quaternionf(w, x, y, z)\<close>: the constructor takes the real part first.\<close>

datatype Quaternionf = Quaternionf (qw: real) (qx: real) (qy: real) (qz: real)

definition checked_div :: "real \<Rightarrow> real \<Rightarrow> real option" where
  "checked_div a d = (if d = 0 then None else Some (a / d))"

fun v3_squaredNorm :: "Vector3f \<Rightarrow> real" where
  "v3_squaredNorm (a, b, c) = a * a + b * b + c * c"

definition v3_norm :: "Vector3f \<Rightarrow> real" where
  "v3_norm v = sqrt (v3_squaredNorm v)"

fun v3_add :: "Vector3f \<Rightarrow> Vector3f \<Rightarrow> Vector3f" where
  "v3_add (a, b, c) (d, e, f) = (a + d, b + e, c + f)"

fun v3_sub :: "Vector3f \<Rightarrow> Vector3f \<Rightarrow> Vector3f" where
  "v3_sub (a, b, c) (d, e, f) = (a - d, b - e, c - f)"

text \<open>\<open>s * v\<close> and \<open>v * s\<close> for a scalar \<open>s\<close>.\<close>

fun v3_lscale :: "real \<Rightarrow> Vector3f \<Rightarrow> Vector3f" where
  "v3_lscale s (a, b, c) = (s * a, s * b, s * c)"

fun v3_rscale :: "Vector3f \<Rightarrow> real \<Rightarrow> Vector3f" where
  "v3_rscale (a, b, c) s = (a * s, b * s, c * s)"

fun v3_div :: "Vector3f \<Rightarrow> real \<Rightarrow> Vector3f option" where
  "v3_div (a, b, c) d =
     do { a' \<leftarrow> checked_div a d; b' \<leftarrow> checked_div b d; c' \<leftarrow> checked_div c d;
          Some (a', b', c') }"

text \<open>
  \<open>MatrixBase::normalized()\<close> of Eigen 3.3 and later: the vector is divided by the
  square root of its squared norm when that squared norm is positive, and is returned
  as it is otherwise (Eigen's documentation: for an input of norm zero the function
  returns a copy of the input).
\<close>

definition v3_normalized :: "Vector3f \<Rightarrow> Vector3f option" where
  "v3_normalized n =
     (let z = v3_squaredNorm n in if z > 0 then v3_div n (sqrt z) else Some n)"

subsection \<open>EKF::exp\<close>

definition EKF_exp :: "Vector3f \<Rightarrow> Quaternionf option" where
  "EKF_exp v =
     (let norm = v3_norm v;
          c = cos (norm / 2);
          s = sin (norm / 2)
      in do {
        u \<leftarrow> v3_normalized v;
        let n = v3_lscale s u;
        Some (Quaternionf c (fst n) (fst (snd n)) (snd (snd n)))
      })"

subsection \<open>Quaternions and rotation matrices\<close>

text \<open>Eigen keeps the coefficients of a quaternion in the order \<open>x, y, z, w\<close>.\<close>

definition q_squaredNorm :: "Quaternionf \<Rightarrow> real" where
  "q_squaredNorm q = qx q * qx q + qy q * qy q + qz q * qz q + qw q * qw q"

definition q_norm :: "Quaternionf \<Rightarrow> real" where
  "q_norm q = sqrt (q_squaredNorm q)"


text \<open>The quaternion product \<open>a * b\<close>; Eigen does not renormalise it.\<close>

definition q_mult :: "Quaternionf \<Rightarrow> Quaternionf \<Rightarrow> Quaternionf" where
  "q_mult a b = Quaternionf
     (qw a * qw b - qx a * qx b - qy a * qy b - qz a * qz b)
     (qw a * qx b + qx a * qw b + qy a * qz b - qz a * qy b)
     (qw a * qy b + qy a * qw b + qz a * qx b - qx a * qz b)
     (qw a * qz b + qz a * qw b + qx a * qy b - qy a * qx b)"

definition toRotationMatrix :: "Quaternionf \<Rightarrow> Matrix3f" where
  "toRotationMatrix q =
     (let tx = 2 * qx q; ty = 2 * qy q; tz = 2 * qz q;
          twx = tx * qw q; twy = ty * qw q; twz = tz * qw q;
          txx = tx * qx q; txy = ty * qx q; txz = tz * qx q;
          tyy = ty * qy q; tyz = tz * qy q; tzz = tz * qz q
      in ((1 - (tyy + tzz), txy - twz, txz + twy),
          (txy + twz, 1 - (txx + tzz), tyz - twx),
          (txz - twy, tyz + twx, 1 - (txx + tyy))))"

fun v3_coeff :: "Vector3f \<Rightarrow> nat \<Rightarrow> real" where
  "v3_coeff (a, b, c) i = (if i = 0 then a else if i = 1 then b else c)"

fun m3_coeff :: "Matrix3f \<Rightarrow> nat \<Rightarrow> nat \<Rightarrow> real" where
  "m3_coeff (r0, r1, r2) i j = v3_coeff (if i = 0 then r0 else if i = 1 then r1 else r2) j"

definition m3_trace :: "Matrix3f \<Rightarrow> real" where
  "m3_trace m = m3_coeff m 0 0 + m3_coeff m 1 1 + m3_coeff m 2 2"

text \<open>
  The constructor \<open>Quaternionf(const Matrix3f&)\<close>: Eigen's conversion of a rotation
  matrix (Shoemake's algorithm). It writes the coefficient vector \<open>(x, y, z, w)\<close> by
  index in its second branch; all four entries are written.
\<close>

definition Quaternionf_of_Matrix3f :: "Matrix3f \<Rightarrow> Quaternionf option" where
  "Quaternionf_of_Matrix3f mat =
     (let t = m3_trace mat in
      if t > 0 then
        (let t1 = sqrt (t + 1) in
         do {
           t2 \<leftarrow> checked_div 0.5 t1;
           Some (Quaternionf (0.5 * t1)
                  ((m3_coeff mat 2 1 - m3_coeff mat 1 2) * t2)
                  ((m3_coeff mat 0 2 - m3_coeff mat 2 0) * t2)
                  ((m3_coeff mat 1 0 - m3_coeff mat 0 1) * t2))
         })
      else
        (let i0 = (if m3_coeff mat 1 1 > m3_coeff mat 0 0 then 1 else 0);
             i = (if m3_coeff mat 2 2 > m3_coeff mat i0 i0 then 2 else i0);
             j = (i + 1) mod 3;
             k = (j + 1) mod 3;
             t1 = sqrt (m3_coeff mat i i - m3_coeff mat j j - m3_coeff mat k k + 1)
         in do {
           t2 \<leftarrow> checked_div 0.5 t1;
           let coeffs = [0, 0, 0, 0];
           let coeffs = coeffs[i := 0.5 * t1];
           let coeffs = coeffs[3 := (m3_coeff mat k j - m3_coeff mat j k) * t2];
           let coeffs = coeffs[j := (m3_coeff mat j i + m3_coeff mat i j) * t2];
           let coeffs = coeffs[k := (m3_coeff mat k i + m3_coeff mat i k) * t2];
           Some (Quaternionf (coeffs ! 3) (coeffs ! 0) (coeffs ! 1) (coeffs ! 2))
         }))"

fun m3_mul_v3 :: "Matrix3f \<Rightarrow> Vector3f \<Rightarrow> Vector3f" where
  "m3_mul_v3 ((a00, a01, a02), (a10, a11, a12), (a20, a21, a22)) (x, y, z) =
     (a00 * x + a01 * y + a02 * z, a10 * x + a11 * y + a12 * z, a20 * x + a21 * y + a22 * z)"

fun m3_lscale :: "real \<Rightarrow> Matrix3f \<Rightarrow> Matrix3f" where
  "m3_lscale s (r0, r1, r2) = (v3_lscale s r0, v3_lscale s r1, v3_lscale s r2)"

fun m3_rscale :: "Matrix3f \<Rightarrow> real \<Rightarrow> Matrix3f" where
  "m3_rscale (r0, r1, r2) s = (v3_rscale r0 s, v3_rscale r1 s, v3_rscale r2 s)"

fun v3_neg :: "Vector3f \<Rightarrow> Vector3f" where
  "v3_neg (a, b, c) = (- a, - b, - c)"

fun m3_neg :: "Matrix3f \<Rightarrow> Matrix3f" where
  "m3_neg (r0, r1, r2) = (v3_neg r0, v3_neg r1, v3_neg r2)"

definition m3_Identity :: Matrix3f where
  "m3_Identity = ((1, 0, 0), (0, 1, 0), (0, 0, 1))"

definition m4_Identity :: Matrix4f where
  "m4_Identity = ((1, 0, 0, 0), (0, 1, 0, 0), (0, 0, 1, 0), (0, 0, 0, 1))"

text \<open>Reading and assigning the corners \<open>topLeftCorner(3, 3)\<close> and \<open>topRightCorner(3, 1)\<close>.\<close>

fun m4_topLeftCorner33 :: "Matrix4f \<Rightarrow> Matrix3f" where
  "m4_topLeftCorner33 ((a00, a01, a02, a03), (a10, a11, a12, a13), (a20, a21, a22, a23), r3) =
     ((a00, a01, a02), (a10, a11, a12), (a20, a21, a22))"

fun m4_topRightCorner31 :: "Matrix4f \<Rightarrow> Vector3f" where
  "m4_topRightCorner31 ((a00, a01, a02, a03), (a10, a11, a12, a13), (a20, a21, a22, a23), r3) =
     (a03, a13, a23)"

fun m4_set_topLeftCorner33 :: "Matrix4f \<Rightarrow> Matrix3f \<Rightarrow> Matrix4f" where
  "m4_set_topLeftCorner33 ((a00, a01, a02, a03), (a10, a11, a12, a13), (a20, a21, a22, a23), r3)
       ((b00, b01, b02), (b10, b11, b12), (b20, b21, b22)) =
     ((b00, b01, b02, a03), (b10, b11, b12, a13), (b20, b21, b22, a23), r3)"

fun m4_set_topRightCorner31 :: "Matrix4f \<Rightarrow> Vector3f \<Rightarrow> Matrix4f" where
  "m4_set_topRightCorner31 ((a00, a01, a02, a03), (a10, a11, a12, a13), (a20, a21, a22, a23), r3)
       (b0, b1, b2) =
     ((a00, a01, a02, b0), (a10, a11, a12, b1), (a20, a21, a22, b2), r3)"

subsection \<open>Dynamic-size Eigen values\<close>

text \<open>
  A \<open>VectorXf\<close> is the list of its coefficients, a \<open>MatrixXf\<close> the list of its rows.
  Eigen asserts that the sizes of the operands of a sum or a product agree; the model
  has no such assertion (a sum of lists stops at the shorter one), and the theorems
  that depend on sizes state them.
\<close>

type_synonym VectorXf = "real list"

type_synonym MatrixXf = "real list list"

definition mx_rows :: "MatrixXf \<Rightarrow> nat" where
  "mx_rows m = length m"

definition mx_cols :: "MatrixXf \<Rightarrow> nat" where
  "mx_cols m = (case m of [] \<Rightarrow> 0 | r # _ \<Rightarrow> length r)"

definition mx_Zero :: "nat \<Rightarrow> nat \<Rightarrow> MatrixXf" where
  "mx_Zero r c = replicate r (replicate c 0)"

definition mx_Identity :: "nat \<Rightarrow> nat \<Rightarrow> MatrixXf" where
  "mx_Identity r c = map (\<lambda>i. map (\<lambda>j. if i = j then 1 else 0) [0..<c]) [0..<r]"

text \<open>\<open>m.block(i, j, p, q) = b\<close>: the \<open>p\<close> by \<open>q\<close> block whose top-left entry is \<open>(i, j)\<close>.\<close>

definition mx_set_block :: "nat \<Rightarrow> nat \<Rightarrow> nat \<Rightarrow> nat \<Rightarrow> MatrixXf \<Rightarrow> MatrixXf \<Rightarrow> MatrixXf" where
  "mx_set_block i j p q m b =
     map (\<lambda>r. map (\<lambda>c. if i \<le> r \<and> r < i + p \<and> j \<le> c \<and> c < j + q
                        then b ! (r - i) ! (c - j) else m ! r ! c)
                 [0..<mx_cols m])
         [0..<mx_rows m]"

definition mx_transpose :: "MatrixXf \<Rightarrow> MatrixXf" where
  "mx_transpose m = map (\<lambda>j. map (\<lambda>i. m ! i ! j) [0..<mx_rows m]) [0..<mx_cols m]"

definition vx_dot :: "VectorXf \<Rightarrow> VectorXf \<Rightarrow> real" where
  "vx_dot u v = sum_list (map2 (*) u v)"

definition mx_mul :: "MatrixXf \<Rightarrow> MatrixXf \<Rightarrow> MatrixXf" where
  "mx_mul a b = map (\<lambda>r. map (\<lambda>c. vx_dot r c) (mx_transpose b)) a"

definition mx_mul_vx :: "MatrixXf \<Rightarrow> VectorXf \<Rightarrow> VectorXf" where
  "mx_mul_vx a v = map (\<lambda>r. vx_dot r v) a"

definition mx_add :: "MatrixXf \<Rightarrow> MatrixXf \<Rightarrow> MatrixXf" where
  "mx_add a b = map2 (map2 (+)) a b"

definition mx_sub :: "MatrixXf \<Rightarrow> MatrixXf \<Rightarrow> MatrixXf" where
  "mx_sub a b = map2 (map2 (-)) a b"

definition mx_lscale :: "real \<Rightarrow> MatrixXf \<Rightarrow> MatrixXf" where
  "mx_lscale s m = map (map (\<lambda>e. s * e)) m"

definition mx_rscale :: "MatrixXf \<Rightarrow> real \<Rightarrow> MatrixXf" where
  "mx_rscale m s = map (map (\<lambda>e. e * s)) m"

definition vx_sub :: "VectorXf \<Rightarrow> VectorXf \<Rightarrow> VectorXf" where
  "vx_sub u v = map2 (-) u v"

text \<open>\<open>topRows(n)\<close>, \<open>bottomRows(n)\<close> and \<open>block(i, 0, n, 1)\<close> of a column vector.\<close>

definition vx_topRows :: "nat \<Rightarrow> VectorXf \<Rightarrow> VectorXf" where
  "vx_topRows n v = take n v"

definition vx_bottomRows :: "nat \<Rightarrow> VectorXf \<Rightarrow> VectorXf" where
  "vx_bottomRows n v = drop (length v - n) v"

definition vx_block :: "nat \<Rightarrow> nat \<Rightarrow> VectorXf \<Rightarrow> VectorXf" where
  "vx_block i n v = take n (drop i v)"

text \<open>A block of three rows read as a \<open>Vector3f\<close>, and a \<open>Matrix3f\<close> read as a block.\<close>

definition Vector3f_of :: "VectorXf \<Rightarrow> Vector3f" where
  "Vector3f_of v = (v ! 0, v ! 1, v ! 2)"

fun v3_list :: "Vector3f \<Rightarrow> VectorXf" where
  "v3_list (a, b, c) = [a, b, c]"

fun m3_rows :: "Matrix3f \<Rightarrow> MatrixXf" where
  "m3_rows (r0, r1, r2) = [v3_list r0, v3_list r1, v3_list r2]"

subsection \<open>The filter\<close>

text \<open>
  The members of the class that \<open>ekf.cpp\<close> reads and writes. Its header is not part of
  the sources: \<open>gravity\<close>, \<open>LQL\<close> and \<open>W\<close> are members that no function of \<open>ekf.cpp\<close>
  assigns.
\<close>

record EKF =
  scale :: real
  qua :: Quaternionf
  pos :: Vector3f
  vel :: Vector3f
  P :: MatrixXf
  last_ns :: "64 word"
  gravity :: Vector3f
  LQL :: MatrixXf
  W :: MatrixXf

text \<open>
  What \<open>ekf.cpp\<close> calls and does not define, taken as parameters: the member function
  \<open>isUpadatable\<close> of the header, \<open>getScale\<close> and \<open>normalizeRotation\<close> of
  \<open>core/util.hpp\<close>, and Eigen's \<open>MatrixXf::inverse()\<close>, which has no value to
  return for a singular matrix.
\<close>

record externals =
  isUpadatable :: "EKF \<Rightarrow> bool"
  getScale :: "Matrix4f \<Rightarrow> real"
  normalizeRotation :: "Matrix4f \<Rightarrow> Matrix3f"
  mx_inverse :: "MatrixXf \<Rightarrow> MatrixXf option"

fun EKF_hat :: "Vector3f \<Rightarrow> Matrix3f" where
  "EKF_hat (v0, v1, v2) = ((0, - v2, v1), (v2, 0, - v0), (- v1, v0, 0))"

fun EKF_toVec :: "Vector3f \<Rightarrow> Quaternionf \<Rightarrow> VectorXf" where
  "EKF_toVec (p0, p1, p2) q = [p0, p1, p2, qw q, qx q, qy q, qz q]"

definition EKF_calcH :: "Quaternionf \<Rightarrow> MatrixXf" where
  "EKF_calcH q =
     (let Q = [[- qx q, - qy q, - qz q],
               [  qw q, - qz q,   qy q],
               [  qz q,   qw q, - qx q],
               [- qy q,   qx q,   qw q]];
          Q = mx_rscale Q 0.5;
          H = mx_Zero 7 9;
          H = mx_set_block 0 0 3 3 H (mx_Identity 3 3);
          H = mx_set_block (mx_rows H - 4) (mx_cols H - 3) 4 3 H Q
      in H)"

definition EKF_calcF :: "Quaternionf \<Rightarrow> Vector3f \<Rightarrow> real \<Rightarrow> MatrixXf" where
  "EKF_calcF q acc dt =
     (let F = mx_Identity 9 9;
          F = mx_set_block 0 3 3 3 F (m3_rows (m3_rscale m3_Identity dt));
          F = mx_set_block 3 6 3 3 F
                (m3_rows (m3_rscale (m3_neg (EKF_hat (m3_mul_v3 (toRotationMatrix q) acc))) dt))
      in F)"

text \<open>\<open>getState\<close> is a member function that is not \<open>const\<close>: it returns the filter too.\<close>

definition EKF_getState :: "EKF \<Rightarrow> Matrix4f \<times> EKF" where
  "EKF_getState s =
     (let T = m4_Identity;
          T = m4_set_topLeftCorner33 T (m3_lscale (scale s) (toRotationMatrix (qua s)));
          T = m4_set_topRightCorner31 T (pos s)
      in (T, s))"


text \<open>
  \<open>static_cast<float>(ns - last_ns) * 1e-9f\<close>: the difference is taken in \<open>unsigned long\<close>,
  then read as a number.
\<close>

definition elapsed :: "64 word \<Rightarrow> 64 word \<Rightarrow> real" where
  "elapsed ns l = real (unat (ns - l)) * (1 / 10 ^ 9)"

definition EKF_predict :: "externals \<Rightarrow> Vector3f \<Rightarrow> Vector3f \<Rightarrow> 64 word \<Rightarrow> EKF \<Rightarrow> EKF option" where
  "EKF_predict x acc omega ns s =
     (if \<not> isUpadatable x s then Some (s\<lparr>last_ns := ns\<rparr>)
      else
        (let dt = elapsed ns (last_ns s);
             s = s\<lparr>last_ns := ns\<rparr>;
             R = toRotationMatrix (qua s)
         in do {
           dq \<leftarrow> EKF_exp (v3_rscale omega dt);
           let nominal_acc = v3_sub (m3_mul_v3 R acc) (gravity s);
           let s = s\<lparr>pos := v3_add (pos s)
                      (v3_add (v3_rscale (vel s) dt)
                              (v3_rscale (v3_rscale (v3_lscale 0.5 nominal_acc) dt) dt))\<rparr>;
           let s = s\<lparr>vel := v3_add (vel s) (v3_rscale nominal_acc dt)\<rparr>;
           let s = s\<lparr>qua := q_mult (qua s) dq\<rparr>;
           let F = EKF_calcF (qua s) acc dt;
           Some (s\<lparr>P := mx_add (mx_mul (mx_mul F (P s)) (mx_transpose F))
                               (mx_rscale (LQL s) dt)\<rparr>)
         }))"

text \<open>The timestamp of \<open>observe\<close> is an unnamed parameter; the printing is left out.\<close>

definition EKF_observe :: "externals \<Rightarrow> Matrix4f \<Rightarrow> 64 word \<Rightarrow> EKF \<Rightarrow> EKF option" where
  "EKF_observe x T ns s =
     (let s = s\<lparr>scale := getScale x T\<rparr>;
          R = normalizeRotation x T
      in do {
        q \<leftarrow> Quaternionf_of_Matrix3f R;
        let t = m4_topRightCorner31 T;
        let H = EKF_calcH (qua s);
        let S = mx_add (mx_mul (mx_mul H (P s)) (mx_transpose H)) (W s);
        Si \<leftarrow> mx_inverse x S;
        let K = mx_mul (mx_mul (P s) (mx_transpose H)) Si;
        let error = vx_sub (EKF_toVec t q) (EKF_toVec (pos s) (qua s));
        let dx = mx_mul_vx K error;
        dq \<leftarrow> EKF_exp (Vector3f_of (vx_bottomRows 3 dx));
        let s = s\<lparr>pos := v3_add (pos s) (Vector3f_of (vx_topRows 3 dx))\<rparr>;
        let s = s\<lparr>vel := v3_add (vel s) (Vector3f_of (vx_block 3 3 dx))\<rparr>;
        let s = s\<lparr>qua := q_mult (qua s) dq\<rparr>;
        Some (s\<lparr>P := mx_sub (P s) (mx_mul (mx_mul K H) (P s))\<rparr>)
      })"

subsection \<open>Sequences of calls\<close>





subsection \<open>Sizes\<close>

definition mx_is :: "nat \<Rightarrow> nat \<Rightarrow> MatrixXf \<Rightarrow> bool" where
  "mx_is r c m \<longleftrightarrow> length m = r \<and> list_all (\<lambda>row. length row = c) m"

subsection \<open>The specification's formulas\<close>

text \<open>
  The state-transition Jacobian in the specification's words: the 9 by 9 identity, but
  for the block \<open>I\<^sub>3 * dt\<close> (position rows, velocity columns) and the block
  \<open>- hat(R * acc) * dt\<close> (velocity rows, attitude-error columns), where \<open>hat(v)\<close> is the
  matrix of the cross product with \<open>v\<close>. The rotation matrix \<open>R\<close> is a parameter here.
\<close>

fun cross :: "Vector3f \<Rightarrow> Vector3f \<Rightarrow> Vector3f" where
  "cross (a, b, c) (d, e, f) = (b * f - c * e, c * d - a * f, a * e - b * d)"

definition spec_F :: "Matrix3f \<Rightarrow> Vector3f \<Rightarrow> real \<Rightarrow> MatrixXf" where
  "spec_F R acc dt =
     (case m3_mul_v3 R acc of (a, b, c) \<Rightarrow>
       [[1, 0, 0, dt, 0, 0, 0, 0, 0],
        [0, 1, 0, 0, dt, 0, 0, 0, 0],
        [0, 0, 1, 0, 0, dt, 0, 0, 0],
        [0, 0, 0, 1, 0, 0, 0, c * dt, - b * dt],
        [0, 0, 0, 0, 1, 0, - c * dt, 0, a * dt],
        [0, 0, 0, 0, 0, 1, b * dt, - a * dt, 0],
        [0, 0, 0, 0, 0, 0, 1, 0, 0],
        [0, 0, 0, 0, 0, 0, 0, 1, 0],
        [0, 0, 0, 0, 0, 0, 0, 0, 1]])"

text \<open>The propagated covariance \<open>F * P * F\<^sup>T + LQL * dt\<close> for the Jacobian of a given \<open>R\<close>.\<close>

definition spec_P :: "Matrix3f \<Rightarrow> Vector3f \<Rightarrow> real \<Rightarrow> EKF \<Rightarrow> MatrixXf" where
  "spec_P R acc dt s =
     (let F = spec_F R acc dt
      in mx_add (mx_mul (mx_mul F (P s)) (mx_transpose F)) (mx_rscale (LQL s) dt))"

text \<open>
  The propagation of the prediction step in the specification's words, for a time step
  \<open>dt\<close> and an incremental rotation \<open>dq\<close>: the world-frame acceleration is
  \<open>R * acc - gravity\<close> for the rotation matrix \<open>R\<close> of the orientation before the
  call; the covariance is the one of \<open>spec_P\<close> for the rotation matrix of the
  orientation after it.
\<close>

definition spec_propagate :: "Vector3f \<Rightarrow> real \<Rightarrow> Quaternionf \<Rightarrow> 64 word \<Rightarrow> EKF \<Rightarrow> EKF" where
  "spec_propagate acc dt dq ns s =
     (let R = toRotationMatrix (qua s);
          a_world = v3_sub (m3_mul_v3 R acc) (gravity s)
      in s\<lparr>pos := v3_add (pos s) (v3_add (v3_rscale (vel s) dt) (v3_rscale a_world (dt\<^sup>2 / 2))),
            vel := v3_add (vel s) (v3_rscale a_world dt),
            qua := q_mult (qua s) dq,
            last_ns := ns,
            P := spec_P (toRotationMatrix (q_mult (qua s) dq)) acc dt s\<rparr>)"




subsection \<open>A concrete filter\<close>

text \<open>
  An instance of the parameters and a filter as \<open>init\<close> leaves it for the identity
  pose, on which the theorems below are evaluated. The instance of \<open>isUpadatable\<close>
  is one possible gate (a timestamp has been recorded). The instance of the inverse
  is the inverse of a square diagonal matrix with no zero on its diagonal, and has no
  value for any other matrix.
\<close>

definition diag_inverse :: "MatrixXf \<Rightarrow> MatrixXf option" where
  "diag_inverse m =
     (let n = length m in
      if list_all (\<lambda>i. length (m ! i) = n \<and>
                        list_all (\<lambda>j. if i = j then m ! i ! j \<noteq> 0 else m ! i ! j = 0) [0..<n])
                  [0..<n]
      then Some (map (\<lambda>i. map (\<lambda>j. if i = j then 1 / m ! i ! j else 0) [0..<n]) [0..<n])
      else None)"

definition ex_externals :: externals where
  "ex_externals =
     \<lparr>isUpadatable = (\<lambda>s. last_ns s \<noteq> 0),
      getScale = (\<lambda>T. 1),
      normalizeRotation = m4_topLeftCorner33,
      mx_inverse = diag_inverse\<rparr>"

definition ex_EKF :: EKF where
  "ex_EKF =
     \<lparr>scale = 1, qua = Quaternionf 1 0 0 0, pos = (0, 0, 0), vel = (0, 0, 0),
      P = mx_lscale 0.5 (mx_Identity 9 9), last_ns = 1000000000,
      gravity = (0, 0, 9.8), LQL = mx_Zero 9 9, W = mx_Identity 7 7\<rparr>"



section \<open>Properties\<close>

subsection \<open>The exponential map\<close>

lemma v3_squaredNorm_nonneg: "0 \<le> v3_squaredNorm v"
  by (cases v) simp

lemma v3_squaredNorm_zero_iff: "v3_squaredNorm v = 0 \<longleftrightarrow> v = (0, 0, 0)"
proof (cases v)
  case (fields a b c)
  have "a * a + b * b + c * c = 0 \<longleftrightarrow> a = 0 \<and> b = 0 \<and> c = 0"
    using sum_power2_eq_zero_iff [of a b] sum_power2_eq_zero_iff [of "sqrt (a\<^sup>2 + b\<^sup>2)" c]
    by (auto simp: power2_eq_square [symmetric] add_nonneg_eq_0_iff)
  then show ?thesis using fields by simp
qed

lemma v3_norm_zero_iff: "v3_norm v = 0 \<longleftrightarrow> v = (0, 0, 0)"
  by (simp add: v3_norm_def v3_squaredNorm_zero_iff)

lemma v3_normalized_zero: "v3_normalized (0, 0, 0) = Some (0, 0, 0)"
  by (simp add: v3_normalized_def)

lemma EKF_exp_zero: "EKF_exp (0, 0, 0) = Some (Quaternionf 1 0 0 0)"
  by (simp add: EKF_exp_def v3_norm_def v3_normalized_zero)

text \<open>
  C1. For an input of norm zero, \<open>EKF::exp\<close> returns the identity quaternion
  \<open>(1, 0, 0, 0)\<close>, and it returns it as a value: no division by zero is performed
  (the division of \<open>normalized()\<close> is skipped for a squared norm that is not positive).
\<close>

theorem C1_exp_zero_identity:
  "v3_norm v = 0 \<Longrightarrow> EKF_exp v = Some (Quaternionf 1 0 0 0)"
proof -
  assume "v3_norm v = 0"
  then have v: "v = (0, 0, 0)"
    by (simp add: v3_norm_zero_iff)
  show ?thesis
    unfolding v by (rule EKF_exp_zero)
qed

theorem C1_exp_zero_identity_witness:
  "v3_norm (0, 0, 0) = 0 \<and> EKF_exp (0, 0, 0) = Some (Quaternionf 1 0 0 0)"
  using C1_exp_zero_identity [of "(0, 0, 0)"] by (simp add: v3_norm_def)

subsection \<open>Quaternions of norm 1\<close>



lemma v3_div_Some: "d \<noteq> 0 \<Longrightarrow> v3_div (a, b, c) d = Some (a / d, b / d, c / d)"
  by (simp add: checked_div_def)

lemma v3_normalized_nonzero:
  assumes "v \<noteq> (0, 0, 0)"
  shows "v3_normalized v = Some (fst v / v3_norm v, fst (snd v) / v3_norm v, snd (snd v) / v3_norm v)"
proof -
  have "v3_squaredNorm v \<noteq> 0" using assms by (simp add: v3_squaredNorm_zero_iff)
  with v3_squaredNorm_nonneg [of v] have pos: "0 < v3_squaredNorm v" by simp
  then have "sqrt (v3_squaredNorm v) \<noteq> 0" by simp
  then show ?thesis using pos
    by (cases v) (simp add: v3_normalized_def v3_norm_def checked_div_def Let_def del: v3_squaredNorm.simps)
qed

lemma EKF_exp_unit: "\<exists>q. EKF_exp v = Some q \<and> q_norm q = 1"
proof (cases "v = (0, 0, 0)")
  case True
  then have "v3_norm v = 0" by (simp add: v3_norm_zero_iff)
  then have "EKF_exp v = Some (Quaternionf 1 0 0 0)"
    unfolding True by (simp add: EKF_exp_def v3_normalized_zero)
  then show ?thesis by (simp add: q_norm_def q_squaredNorm_def)
next
  case False
  obtain a b c where v: "v = (a, b, c)" by (cases v)
  define n where "n = v3_norm v"
  have n0: "n \<noteq> 0" using False by (simp add: n_def v3_norm_zero_iff)
  have nn: "n * n = a * a + b * b + c * c"
    unfolding n_def v3_norm_def v by (simp add: v3_squaredNorm_nonneg [of "(a,b,c)", simplified])
  have e: "EKF_exp v = Some (Quaternionf (cos (n / 2)) (sin (n / 2) * (a / n)) (sin (n / 2) * (b / n)) (sin (n / 2) * (c / n)))"
    using v3_normalized_nonzero [OF False] by (simp add: EKF_exp_def n_def v Let_def)
  have "(a / n) * (a / n) + (b / n) * (b / n) + (c / n) * (c / n) = (a * a + b * b + c * c) / (n * n)"
    by (simp add: add_divide_distrib)
  also have "\<dots> = 1" using n0 by (simp add: nn [symmetric])
  finally have u: "(a / n) * (a / n) + (b / n) * (b / n) + (c / n) * (c / n) = 1" .
  have "q_squaredNorm (Quaternionf (cos (n / 2)) (sin (n / 2) * (a / n)) (sin (n / 2) * (b / n)) (sin (n / 2) * (c / n)))
      = sin (n / 2) * sin (n / 2) * ((a / n) * (a / n) + (b / n) * (b / n) + (c / n) * (c / n)) + cos (n / 2) * cos (n / 2)"
    by (simp add: q_squaredNorm_def algebra_simps)
  also have "\<dots> = 1" unfolding u using sin_cos_squared_add [of "n / 2"] by (simp add: power2_eq_square)
  finally show ?thesis using e by (simp add: q_norm_def)
qed






subsection \<open>Products with the identity matrix\<close>

lemma upt9: "[0..<9] = [0,1,2,3,4,5,6,7,8]" by (simp add: upt_rec)

lemma vx_dot_unit_left:
  assumes "length v = n" "i < n"
  shows "vx_dot (map (\<lambda>j. if i = j then 1 else 0) [0..<n]) v = v ! i"
proof -
  have "map2 (*) (map (\<lambda>j. if i = j then 1 else (0::real)) [0..<n]) v
      = map (\<lambda>j. (if i = j then 1 else 0) * v ! j) [0..<n]"
    using assms(1) by (intro nth_equalityI) simp_all
  then have "vx_dot (map (\<lambda>j. if i = j then 1 else 0) [0..<n]) v
      = (\<Sum>j = 0..<n. (if i = j then 1 else 0) * v ! j)"
    by (simp add: vx_dot_def interv_sum_list_conv_sum_set_nat)
  also have "\<dots> = (\<Sum>j = 0..<n. if i = j then v ! j else 0)"
    by (intro sum.cong) simp_all
  also have "\<dots> = v ! i" using assms(2) by simp
  finally show ?thesis .
qed

lemma vx_dot_unit_right:
  assumes "length v = n" "i < n"
  shows "vx_dot v (map (\<lambda>j. if j = i then 1 else 0) [0..<n]) = v ! i"
proof -
  have "map2 (*) v (map (\<lambda>j. if j = i then 1 else (0::real)) [0..<n])
      = map (\<lambda>j. v ! j * (if j = i then 1 else 0)) [0..<n]"
    using assms(1) by (intro nth_equalityI) simp_all
  then have "vx_dot v (map (\<lambda>j. if j = i then 1 else 0) [0..<n])
      = (\<Sum>j = 0..<n. v ! j * (if j = i then 1 else 0))"
    by (simp add: vx_dot_def interv_sum_list_conv_sum_set_nat)
  also have "\<dots> = (\<Sum>j = 0..<n. if i = j then v ! j else 0)"
    by (intro sum.cong) auto
  also have "\<dots> = v ! i" using assms(2) by simp
  finally show ?thesis .
qed

lemma mx_is_row: "mx_is r c m \<Longrightarrow> i < r \<Longrightarrow> length (m ! i) = c"
  by (simp add: mx_is_def list_all_length)

lemma mx_is_cols: "mx_is r c m \<Longrightarrow> 0 < r \<Longrightarrow> mx_cols m = c"
  by (cases m) (simp_all add: mx_is_def mx_cols_def)

lemma mx_transpose_Identity: "mx_transpose (mx_Identity n n) = mx_Identity n n"
proof (cases n)
  case 0
  then show ?thesis by (simp add: mx_transpose_def mx_Identity_def mx_cols_def mx_rows_def)
next
  case (Suc k)
  have c: "mx_cols (mx_Identity n n) = n"
    unfolding Suc by (simp add: mx_Identity_def mx_cols_def upt_rec [of 0] del: upt_Suc)
  have r: "mx_rows (mx_Identity n n) = n" by (simp add: mx_Identity_def mx_rows_def)
  show ?thesis
    unfolding mx_transpose_def c r
    by (intro nth_equalityI) (auto simp: mx_Identity_def)
qed

lemma mx_mul_Identity_left:
  assumes "mx_is n n m" "0 < n"
  shows "mx_mul (mx_Identity n n) m = m"
proof -
  have c: "mx_cols m = n" using assms by (rule mx_is_cols)
  have r: "mx_rows m = n" using assms(1) by (simp add: mx_is_def mx_rows_def)
  have len: "length m = n" using assms(1) by (simp add: mx_is_def)
  show ?thesis
  proof (rule nth_equalityI)
    show "length (mx_mul (mx_Identity n n) m) = length m"
      by (simp add: mx_mul_def mx_Identity_def len)
  next
    fix i assume "i < length (mx_mul (mx_Identity n n) m)"
    then have i: "i < n" by (simp add: mx_mul_def mx_Identity_def)
    have li: "length (m ! i) = n" using assms(1) i by (rule mx_is_row)
    have "mx_mul (mx_Identity n n) m ! i
        = map (\<lambda>j. vx_dot (map (\<lambda>k. if i = k then 1 else 0) [0..<n]) (map (\<lambda>k. m ! k ! j) [0..<n])) [0..<n]"
      using i by (simp add: mx_mul_def mx_Identity_def mx_transpose_def c r comp_def)
    also have "\<dots> = map (\<lambda>j. m ! i ! j) [0..<n]"
      using i by (intro map_cong refl) (simp add: vx_dot_unit_left)
    also have "\<dots> = m ! i" using map_nth [of "m ! i"] li by simp
    finally show "mx_mul (mx_Identity n n) m ! i = m ! i" .
  qed
qed

lemma mx_mul_Identity_right:
  assumes "mx_is n n m"
  shows "mx_mul m (mx_transpose (mx_Identity n n)) = m"
proof (rule nth_equalityI)
  show "length (mx_mul m (mx_transpose (mx_Identity n n))) = length m"
    by (simp add: mx_mul_def)
next
  fix i assume "i < length (mx_mul m (mx_transpose (mx_Identity n n)))"
  then have i: "i < length m" by (simp add: mx_mul_def)
  then have i': "i < n" using assms by (simp add: mx_is_def)
  have li: "length (m ! i) = n" using assms i' by (rule mx_is_row)
  have t: "mx_transpose (mx_transpose (mx_Identity n n)) = mx_Identity n n"
    by (simp add: mx_transpose_Identity)
  have "mx_mul m (mx_transpose (mx_Identity n n)) ! i
      = map (\<lambda>j. vx_dot (m ! i) (map (\<lambda>k. if j = k then 1 else 0) [0..<n])) [0..<n]"
    using i by (simp add: mx_mul_def t) (simp add: mx_Identity_def comp_def)
  also have "\<dots> = map (\<lambda>j. vx_dot (m ! i) (map (\<lambda>k. if k = j then 1 else 0) [0..<n])) [0..<n]"
    by (intro map_cong refl arg_cong2 [where f = vx_dot]) auto
  also have "\<dots> = map (\<lambda>j. m ! i ! j) [0..<n]"
    using li by (intro map_cong refl) (simp add: vx_dot_unit_right)
  also have "\<dots> = m ! i" using map_nth [of "m ! i"] li by simp
  finally show "mx_mul m (mx_transpose (mx_Identity n n)) ! i = m ! i" .
qed

lemma mx_add_rscale_zero:
  assumes "mx_is r c m" "mx_is r c l"
  shows "mx_add m (mx_rscale l 0) = m"
proof (rule nth_equalityI)
  show "length (mx_add m (mx_rscale l 0)) = length m"
    using assms by (simp add: mx_add_def mx_rscale_def mx_is_def)
next
  fix i assume "i < length (mx_add m (mx_rscale l 0))"
  then have i: "i < r" using assms by (simp add: mx_add_def mx_rscale_def mx_is_def)
  have lm: "length (m ! i) = c" and ll: "length (l ! i) = c"
    using assms i by (auto intro: mx_is_row)
  have "mx_add m (mx_rscale l 0) ! i = map2 (+) (m ! i) (map (\<lambda>e. 0) (l ! i))"
    using assms i by (simp add: mx_add_def mx_rscale_def mx_is_def)
  also have "\<dots> = m ! i"
    using lm ll by (intro nth_equalityI) simp_all
  finally show "mx_add m (mx_rscale l 0) ! i = m ! i" .
qed

subsection \<open>The matrices of the filter, row by row\<close>




lemma mx_Zero_9_9_rows: "mx_Zero 9 9 =
  [[0, 0, 0, 0, 0, 0, 0, 0, 0],
   [0, 0, 0, 0, 0, 0, 0, 0, 0],
   [0, 0, 0, 0, 0, 0, 0, 0, 0],
   [0, 0, 0, 0, 0, 0, 0, 0, 0],
   [0, 0, 0, 0, 0, 0, 0, 0, 0],
   [0, 0, 0, 0, 0, 0, 0, 0, 0],
   [0, 0, 0, 0, 0, 0, 0, 0, 0],
   [0, 0, 0, 0, 0, 0, 0, 0, 0],
   [0, 0, 0, 0, 0, 0, 0, 0, 0]]"
  by (simp add: mx_Zero_def eval_nat_numeral)




lemma mx_Identity_9_9: "mx_Identity 9 9 =
  [[1, 0, 0, 0, 0, 0, 0, 0, 0],
   [0, 1, 0, 0, 0, 0, 0, 0, 0],
   [0, 0, 1, 0, 0, 0, 0, 0, 0],
   [0, 0, 0, 1, 0, 0, 0, 0, 0],
   [0, 0, 0, 0, 1, 0, 0, 0, 0],
   [0, 0, 0, 0, 0, 1, 0, 0, 0],
   [0, 0, 0, 0, 0, 0, 1, 0, 0],
   [0, 0, 0, 0, 0, 0, 0, 1, 0],
   [0, 0, 0, 0, 0, 0, 0, 0, 1]]"
  by (simp add: mx_Identity_def upt9)

lemma mx_is_Zero_9_9: "mx_is 9 9 (mx_Zero 9 9)"
  by (simp add: mx_is_def mx_Zero_def list_all_length)

lemma mx_is_lscale_Identity_9_9: "mx_is 9 9 (mx_lscale c (mx_Identity 9 9))"
  by (simp add: mx_is_def mx_lscale_def mx_Identity_9_9)

lemma mx_transpose_9:
  "mx_transpose [[a0,a1,a2,a3,a4,a5,a6,a7,a8],[b0,b1,b2,b3,b4,b5,b6,b7,b8],[c0,c1,c2,c3,c4,c5,c6,c7,c8],
     [d0,d1,d2,d3,d4,d5,d6,d7,d8],[e0,e1,e2,e3,e4,e5,e6,e7,e8],[f0,f1,f2,f3,f4,f5,f6,f7,f8],
     [g0,g1,g2,g3,g4,g5,g6,g7,g8],[h0,h1,h2,h3,h4,h5,h6,h7,h8],[i0,i1,i2,i3,i4,i5,i6,i7,i8]] =
   [[a0,b0,c0,d0,e0,f0,g0,h0,i0],[a1,b1,c1,d1,e1,f1,g1,h1,i1],[a2,b2,c2,d2,e2,f2,g2,h2,i2],
    [a3,b3,c3,d3,e3,f3,g3,h3,i3],[a4,b4,c4,d4,e4,f4,g4,h4,i4],[a5,b5,c5,d5,e5,f5,g5,h5,i5],
    [a6,b6,c6,d6,e6,f6,g6,h6,i6],[a7,b7,c7,d7,e7,f7,g7,h7,i7],[a8,b8,c8,d8,e8,f8,g8,h8,i8]]"
  by (simp add: mx_transpose_def mx_rows_def mx_cols_def upt9)

subsection \<open>The Jacobians are those of the specification\<close>


lemma EKF_calcF_spec: "EKF_calcF q acc dt = spec_F (toRotationMatrix q) acc dt"
proof -
  obtain a b c where abc: "m3_mul_v3 (toRotationMatrix q) acc = (a, b, c)"
    by (metis prod_cases3)
  show ?thesis
    by (simp add: EKF_calcF_def spec_F_def abc mx_Identity_9_9 mx_set_block_def m3_Identity_def
        mx_rows_def mx_cols_def upt9 Let_def)
qed

text \<open>\<open>hat(v)\<close> is the matrix of the cross product with \<open>v\<close>.\<close>

lemma EKF_hat_cross: "m3_mul_v3 (EKF_hat v) u = cross v u"
  by (cases v; cases u) simp

text \<open>
  The velocity rows and attitude-error columns of \<open>spec_F\<close> are the block
  \<open>- hat(R * acc) * dt\<close>.
\<close>

lemma spec_F_attitude_block:
  "map (\<lambda>r. drop 6 r) (take 3 (drop 3 (spec_F R acc dt))) =
     m3_rows (m3_rscale (m3_neg (EKF_hat (m3_mul_v3 R acc))) dt)"
  by (simp add: spec_F_def split: prod.splits)

lemma spec_F_zero: "spec_F R acc 0 = mx_Identity 9 9"
  by (simp add: spec_F_def mx_Identity_9_9 split: prod.splits)

subsection \<open>The time step\<close>

lemma elapsed_same: "elapsed ns ns = 0"
  by (simp add: elapsed_def)


lemma elapsed_wrapped:
  assumes "ns < l"
  shows "elapsed ns l = (2 ^ 64 - (real (unat l) - real (unat ns))) * (1 / 10 ^ 9)"
proof -
  have lt: "unat ns < unat l" using assms by (simp add: word_less_nat_alt)
  have bl: "unat l < 2 ^ 64" using unsigned_less [of l, where 'a = nat] by simp
  have "unat (ns - l) = (2 ^ 64 + unat ns - unat l) mod 2 ^ 64"
    using unat_sub_if' [of ns l] lt by simp
  also have "\<dots> = 2 ^ 64 + unat ns - unat l"
    using lt bl by simp
  finally have "real (unat (ns - l)) = 2 ^ 64 + real (unat ns) - real (unat l)"
    using lt bl by (simp add: of_nat_diff)
  then show ?thesis by (simp add: elapsed_def)
qed

subsection \<open>The prediction step and the measurement update\<close>

lemma q_mult_identity: "q_mult q (Quaternionf 1 0 0 0) = q"
  by (cases q) (simp add: q_mult_def)

lemma v3_rscale_zero: "v3_rscale v 0 = (0, 0, 0)"
  by (cases v) simp

lemma v3_add_zero: "v3_add v (0, 0, 0) = v"
  by (cases v) simp

text \<open>Past its gate, \<open>predict\<close> is the propagation of the specification.\<close>

lemma EKF_predict_propagate:
  assumes "isUpadatable x s" "EKF_exp (v3_rscale omega (elapsed ns (last_ns s))) = Some dq"
  shows "EKF_predict x acc omega ns s = Some (spec_propagate acc (elapsed ns (last_ns s)) dq ns s)"
proof -
  obtain a b c where a: "v3_sub (m3_mul_v3 (toRotationMatrix (qua s)) acc) (gravity s) = (a, b, c)"
    by (metis prod_cases3)
  obtain p0 p1 p2 where p: "pos s = (p0, p1, p2)" by (metis prod_cases3)
  obtain u0 u1 u2 where u: "vel s = (u0, u1, u2)" by (metis prod_cases3)
  show ?thesis
    using assms
    by (simp add: EKF_predict_def spec_propagate_def spec_P_def EKF_calcF_spec Let_def a p u
        power2_eq_square)
qed

text \<open>A propagation over no time and by no rotation changes nothing.\<close>

lemma spec_P_zero:
  assumes "mx_is 9 9 (P s)" "mx_is 9 9 (LQL s)"
  shows "spec_P R acc 0 s = P s"
proof -
  have "mx_mul (mx_mul (mx_Identity 9 9) (P s)) (mx_transpose (mx_Identity 9 9)) = P s"
    using assms(1) by (simp add: mx_mul_Identity_left mx_mul_Identity_right)
  then show ?thesis
    using assms by (simp add: spec_P_def spec_F_zero mx_add_rscale_zero)
qed

lemma spec_propagate_zero:
  assumes "mx_is 9 9 (P s)" "mx_is 9 9 (LQL s)" "last_ns s = ns"
  shows "spec_propagate acc 0 (Quaternionf 1 0 0 0) ns s = s"
  using assms(3)
  by (simp add: spec_propagate_def Let_def v3_rscale_zero v3_add_zero q_mult_identity
      spec_P_zero [OF assms(1,2)])






subsection \<open>Sequences of calls\<close>










subsection \<open>The concrete filter\<close>

lemma ex_isUpadatable: "isUpadatable ex_externals ex_EKF"
  by (simp add: ex_externals_def ex_EKF_def)

lemma ex_elapsed: "elapsed 2000000000 (last_ns ex_EKF) = 1"
  by (simp add: ex_EKF_def elapsed_def)

lemma ex_elapsed_wrapped: "elapsed 0 (last_ns ex_EKF) = 18446744072709551616 / 10 ^ 9"
  by (simp add: elapsed_def ex_EKF_def)

lemma ex_sizes: "mx_is 9 9 (P ex_EKF)" "mx_is 9 9 (LQL ex_EKF)" "length (P ex_EKF) = 9"
proof -
  show "mx_is 9 9 (P ex_EKF)" "mx_is 9 9 (LQL ex_EKF)"
    by (simp_all add: ex_EKF_def mx_is_Zero_9_9 mx_is_lscale_Identity_9_9)
  then show "length (P ex_EKF) = 9"
    by (simp add: mx_is_def)
qed



text \<open>A half turn about the third axis within one second.\<close>

lemma EKF_exp_half_turn: "EKF_exp (0, 0, pi) = Some (Quaternionf 0 0 0 1)"
proof -
  have n: "v3_norm (0, 0, pi) = pi" by (simp add: v3_norm_def)
  have "v3_normalized (0, 0, pi) = Some (0, 0, 1)"
    by (simp add: v3_normalized_def checked_div_def)
  then show ?thesis by (simp add: EKF_exp_def n)
qed

lemma ex_predict_half_turn:
  "EKF_predict ex_externals (1, 0, 0) (0, 0, pi) 2000000000 ex_EKF =
     Some (spec_propagate (1, 0, 0) 1 (Quaternionf 0 0 0 1) 2000000000 ex_EKF)"
proof -
  have e: "EKF_exp (v3_rscale (0, 0, pi) (elapsed 2000000000 (last_ns ex_EKF))) = Some (Quaternionf 0 0 0 1)"
    by (simp add: ex_elapsed EKF_exp_half_turn)
  show ?thesis
    using EKF_predict_propagate [OF ex_isUpadatable e, of "(1, 0, 0)"] by (simp add: ex_elapsed)
qed

lemma ex_R_before: "m3_mul_v3 (toRotationMatrix (Quaternionf 1 0 0 0)) (1, 0, 0) = (1, 0, 0)"
  by (simp add: toRotationMatrix_def)

lemma ex_R_after:
  "m3_mul_v3 (toRotationMatrix (q_mult (Quaternionf 1 0 0 0) (Quaternionf 0 0 0 1))) (1, 0, 0) = (- 1, 0, 0)"
  by (simp add: toRotationMatrix_def q_mult_def)

text \<open>
  One entry of the propagated covariance (velocity row 4, attitude-error column 8), for
  the rotation matrix before and after the half turn.
\<close>

lemma ex_P_before:
  "spec_P (toRotationMatrix (qua ex_EKF)) (1, 0, 0) 1 ex_EKF ! 4 ! 8 = 1 / 2"
  by (simp add: spec_P_def spec_F_def ex_EKF_def ex_R_before mx_Identity_9_9 mx_Zero_9_9_rows
      mx_lscale_def mx_rscale_def mx_add_def mx_mul_def vx_dot_def mx_transpose_9 Let_def)

lemma ex_P_after:
  "spec_P (toRotationMatrix (q_mult (qua ex_EKF) (Quaternionf 0 0 0 1))) (1, 0, 0) 1 ex_EKF ! 4 ! 8 = - 1 / 2"
  by (simp add: spec_P_def spec_F_def ex_EKF_def ex_R_after mx_Identity_9_9 mx_Zero_9_9_rows
      mx_lscale_def mx_rscale_def mx_add_def mx_mul_def vx_dot_def mx_transpose_9 Let_def)














section \<open>The claims\<close>

text \<open>
  C2, as the code has it. For a \<open>predict\<close> call past the gate, the covariance becomes
  \<open>F * P * F\<^sup>T + LQL * dt\<close>, where \<open>F\<close> is the 9 by 9 identity but for the block
  \<open>I\<^sub>3 * dt\<close> and the block \<open>- hat(R * acc) * dt\<close>, and \<open>R\<close> is the rotation matrix of
  the orientation after the incremental rotation \<open>dq\<close> has been multiplied in:
  \<open>calcF\<close> is called with the updated quaternion.
\<close>

theorem C2_covariance:
  assumes "isUpadatable x s" and "dt = elapsed ns (last_ns s)"
  shows "\<exists>dq. EKF_exp (v3_rscale omega dt) = Some dq \<and>
           map_option P (EKF_predict x acc omega ns s) =
             Some (spec_P (toRotationMatrix (q_mult (qua s) dq)) acc dt s)"
proof -
  obtain dq where dq: "EKF_exp (v3_rscale omega (elapsed ns (last_ns s))) = Some dq"
    using EKF_exp_unit by blast
  have "EKF_predict x acc omega ns s = Some (spec_propagate acc (elapsed ns (last_ns s)) dq ns s)"
    using assms(1) dq by (rule EKF_predict_propagate)
  then show ?thesis
    using dq assms(2) by (simp add: spec_propagate_def Let_def)
qed

theorem C2_covariance_witness:
  "isUpadatable ex_externals ex_EKF \<and>
   (\<exists>dq. EKF_exp (v3_rscale (0, 0, pi) 1) = Some dq \<and>
      map_option P (EKF_predict ex_externals (1, 0, 0) (0, 0, pi) 2000000000 ex_EKF) =
        Some (spec_P (toRotationMatrix (q_mult (qua ex_EKF) dq)) (1, 0, 0) 1 ex_EKF))"
  using ex_isUpadatable
    C2_covariance [OF ex_isUpadatable ex_elapsed [symmetric], of "(0, 0, pi)" "(1, 0, 0)"]
  by simp

text \<open>
  C2 as it is stated fails: with the rotation matrix of the orientation held at the
  start of the call, the formula gives another covariance than the code. The filter is
  the concrete one, the acceleration is \<open>(1, 0, 0)\<close>, and the angular rate \<open>(0, 0, pi)\<close>
  over one second turns the orientation by a half turn.
\<close>

theorem C2_counterexample:
  "map_option P (EKF_predict ex_externals (1, 0, 0) (0, 0, pi) 2000000000 ex_EKF) \<noteq>
     Some (spec_P (toRotationMatrix (qua ex_EKF)) (1, 0, 0)
             (elapsed 2000000000 (last_ns ex_EKF)) ex_EKF)"
proof
  assume "map_option P (EKF_predict ex_externals (1, 0, 0) (0, 0, pi) 2000000000 ex_EKF) =
     Some (spec_P (toRotationMatrix (qua ex_EKF)) (1, 0, 0)
             (elapsed 2000000000 (last_ns ex_EKF)) ex_EKF)"
  then have "spec_P (toRotationMatrix (q_mult (qua ex_EKF) (Quaternionf 0 0 0 1))) (1, 0, 0) 1 ex_EKF
      = spec_P (toRotationMatrix (qua ex_EKF)) (1, 0, 0) 1 ex_EKF"
    by (simp add: ex_predict_half_turn spec_propagate_def Let_def ex_elapsed)
  then have "spec_P (toRotationMatrix (q_mult (qua ex_EKF) (Quaternionf 0 0 0 1))) (1, 0, 0) 1 ex_EKF ! 4 ! 8
      = spec_P (toRotationMatrix (qua ex_EKF)) (1, 0, 0) 1 ex_EKF ! 4 ! 8"
    by simp
  then show False by (simp add: ex_P_before ex_P_after)
qed








text \<open>
  C6. A \<open>predict\<close> call on a filter that is not updatable records the timestamp and
  changes nothing else: position, velocity, orientation, scale and covariance are
  those of before.
\<close>

theorem C6_predict_before_init:
  "\<not> isUpadatable x s \<Longrightarrow> EKF_predict x acc omega ns s = Some (s\<lparr>last_ns := ns\<rparr>)"
  by (simp add: EKF_predict_def)

theorem C6_predict_before_init_witness:
  "\<not> isUpadatable ex_externals (ex_EKF\<lparr>last_ns := 0\<rparr>) \<and>
   EKF_predict ex_externals (0, 0, 9.8) (0, 0, 0) 5 (ex_EKF\<lparr>last_ns := 0\<rparr>) = Some (ex_EKF\<lparr>last_ns := 5\<rparr>)"
  using C6_predict_before_init [of ex_externals "ex_EKF\<lparr>last_ns := 0\<rparr>" "(0, 0, 9.8)" "(0, 0, 0)" 5]
  by (simp add: ex_externals_def)

text \<open>
  C7, as the code has it. For a \<open>predict\<close> call past the gate whose timestamp is
  smaller than the recorded one, the difference of the timestamps is taken in
  \<open>unsigned long\<close> and wraps around: \<open>dt\<close> is \<open>(2^64 - (last_ns - ns)) * 1e-9\<close>, which is
  positive, and the propagation proceeds unguarded with that \<open>dt\<close>.
\<close>

theorem C7_wrapped_dt:
  assumes "isUpadatable x s" and "ns < last_ns s"
    and "dt = (2 ^ 64 - (real (unat (last_ns s)) - real (unat ns))) * (1 / 10 ^ 9)"
  shows "0 < dt \<and>
         (\<exists>dq. EKF_exp (v3_rscale omega dt) = Some dq \<and>
            EKF_predict x acc omega ns s = Some (spec_propagate acc dt dq ns s))"
proof -
  have dt: "dt = elapsed ns (last_ns s)"
    using assms(2,3) by (simp add: elapsed_wrapped)
  have "ns \<noteq> last_ns s" using assms(2) by simp
  then have "unat (ns - last_ns s) \<noteq> 0" by (simp add: unat_eq_0)
  then have "0 < real (unat (ns - last_ns s))" by linarith
  then have pos: "0 < dt" unfolding dt elapsed_def by (intro mult_pos_pos) simp_all
  obtain dq where dq: "EKF_exp (v3_rscale omega (elapsed ns (last_ns s))) = Some dq"
    using EKF_exp_unit by blast
  have "EKF_predict x acc omega ns s = Some (spec_propagate acc (elapsed ns (last_ns s)) dq ns s)"
    using assms(1) dq by (rule EKF_predict_propagate)
  then show ?thesis using pos dq by (simp add: dt)
qed

theorem C7_wrapped_dt_witness:
  "isUpadatable ex_externals ex_EKF \<and> (0 :: 64 word) < last_ns ex_EKF \<and>
   (0 :: real) < 18446744072709551616 / 10 ^ 9 \<and>
   (\<exists>dq. EKF_exp (v3_rscale (0, 0, 0) (18446744072709551616 / 10 ^ 9)) = Some dq \<and>
      EKF_predict ex_externals (0, 0, 10.8) (0, 0, 0) 0 ex_EKF =
        Some (spec_propagate (0, 0, 10.8) (18446744072709551616 / 10 ^ 9) dq 0 ex_EKF))"
proof -
  have l: "(0 :: 64 word) < last_ns ex_EKF" by (simp add: ex_EKF_def)
  have d: "(18446744072709551616 / 10 ^ 9 :: real) =
      (2 ^ 64 - (real (unat (last_ns ex_EKF)) - real (unat (0 :: 64 word)))) * (1 / 10 ^ 9)"
    by (simp add: ex_EKF_def)
  show ?thesis
    using ex_isUpadatable l
      C7_wrapped_dt [OF ex_isUpadatable l d, of "(0, 0, 0)" "(0, 0, 10.8)"]
    by simp
qed

text \<open>
  C7 as it is stated fails: on the concrete filter, whose recorded timestamp is
  \<open>10^9\<close>, a \<open>predict\<close> call with the timestamp 0 computes a \<open>dt\<close> of more than
  \<open>1.8 * 10^10\<close> seconds, not a negative one, and the velocity grows by the
  world-frame acceleration \<open>(0, 0, 1)\<close> times that \<open>dt\<close>.
\<close>

theorem C7_counterexample:
  "(0 :: 64 word) < last_ns ex_EKF \<and> isUpadatable ex_externals ex_EKF \<and>
   elapsed 0 (last_ns ex_EKF) = 18446744072709551616 / 10 ^ 9 \<and>
   map_option vel (EKF_predict ex_externals (0, 0, 10.8) (0, 0, 0) 0 ex_EKF) =
     Some (0, 0, 18446744072709551616 / 10 ^ 9)"
proof -
  have e: "EKF_exp (v3_rscale (0, 0, 0) (elapsed 0 (last_ns ex_EKF))) = Some (Quaternionf 1 0 0 0)"
    by (simp add: EKF_exp_zero)
  have a: "v3_sub (m3_mul_v3 (toRotationMatrix (qua ex_EKF)) (0, 0, 54 / 5)) (gravity ex_EKF) = (0, 0, 1)"
    by (simp add: ex_EKF_def toRotationMatrix_def)
  have v: "vel ex_EKF = (0, 0, 0)" by (simp add: ex_EKF_def)
  have "map_option vel (EKF_predict ex_externals (0, 0, 10.8) (0, 0, 0) 0 ex_EKF) =
     Some (0, 0, elapsed 0 (last_ns ex_EKF))"
    using EKF_predict_propagate [OF ex_isUpadatable e, of "(0, 0, 10.8)"]
    by (simp add: spec_propagate_def Let_def a v)
  moreover have "(0 :: 64 word) < last_ns ex_EKF" by (simp add: ex_EKF_def)
  ultimately show ?thesis
    using ex_isUpadatable ex_elapsed_wrapped by simp
qed

text \<open>
  C8. On a filter whose covariance and process noise are 9 by 9, a \<open>predict\<close> call
  with the timestamp that the previous call recorded (so that \<open>dt = 0\<close>) leaves the
  filter as it is: position, velocity, orientation and covariance are unchanged.
\<close>

theorem C8_zero_dt:
  assumes "mx_is 9 9 (P s)" and "mx_is 9 9 (LQL s)" and "last_ns s = ns"
  shows "EKF_predict x acc omega ns s = Some s"
proof (cases "isUpadatable x s")
  case False
  then show ?thesis using assms(3) by (simp add: EKF_predict_def)
next
  case True
  have dt: "elapsed ns (last_ns s) = 0"
    using assms(3) by (simp add: elapsed_same)
  have "EKF_exp (v3_rscale omega (elapsed ns (last_ns s))) = Some (Quaternionf 1 0 0 0)"
    by (simp add: dt v3_rscale_zero EKF_exp_zero)
  then have "EKF_predict x acc omega ns s = Some (spec_propagate acc 0 (Quaternionf 1 0 0 0) ns s)"
    using EKF_predict_propagate [OF True, of omega ns "Quaternionf 1 0 0 0" acc] by (simp add: dt)
  then show ?thesis
    by (simp add: spec_propagate_zero [OF assms])
qed

theorem C8_zero_dt_witness:
  "mx_is 9 9 (P ex_EKF) \<and> mx_is 9 9 (LQL ex_EKF) \<and> last_ns ex_EKF = 1000000000 \<and>
   EKF_predict ex_externals (1, 2, 3) (4, 5, 6) 1000000000 ex_EKF = Some ex_EKF"
proof -
  have l: "last_ns ex_EKF = 1000000000" by (simp add: ex_EKF_def)
  show ?thesis
    using ex_sizes(1,2) l
      C8_zero_dt [OF ex_sizes(1) ex_sizes(2) l, of ex_externals "(1, 2, 3)" "(4, 5, 6)"]
    by simp
qed

text \<open>
  C9. \<open>getState\<close> returns the 4 by 4 matrix whose top-left 3 by 3 block is the
  rotation matrix of the orientation times \<open>scale\<close>, whose top-right 3 by 1 block is
  the position and whose bottom row is \<open>(0, 0, 0, 1)\<close>; the filter is the one of before.
\<close>

theorem C9_getState:
  "m4_topLeftCorner33 (fst (EKF_getState s)) = m3_lscale (scale s) (toRotationMatrix (qua s)) \<and>
   m4_topRightCorner31 (fst (EKF_getState s)) = pos s \<and>
   snd (snd (snd (fst (EKF_getState s)))) = (0, 0, 0, 1) \<and>
   snd (EKF_getState s) = s"
proof -
  obtain b00 b01 b02 b10 b11 b12 b20 b21 b22 where
    b: "m3_lscale (scale s) (toRotationMatrix (qua s)) = ((b00, b01, b02), (b10, b11, b12), (b20, b21, b22))"
    by (metis prod_cases3)
  obtain p0 p1 p2 where p: "pos s = (p0, p1, p2)" by (metis prod_cases3)
  show ?thesis
    by (simp add: EKF_getState_def Let_def b p m4_Identity_def)
qed

text \<open>
  C10. \<open>observe\<close> ignores its timestamp: the result is the same for any two
  timestamps, the recorded timestamp is not modified, and it is not read (the call on
  a filter with another recorded timestamp gives the same filter, but for that
  timestamp). So the \<open>dt\<close> of the next \<open>predict\<close> call is counted from the last
  \<open>predict\<close> call.
\<close>

theorem C10_observe_ignores_timestamp:
  "EKF_observe x T ns1 s = EKF_observe x T ns2 s \<and>
   map_option last_ns (EKF_observe x T ns1 s) = map_option (\<lambda>s'. last_ns s) (EKF_observe x T ns1 s) \<and>
   EKF_observe x T ns1 (s\<lparr>last_ns := l\<rparr>) = map_option (\<lambda>s'. s'\<lparr>last_ns := l\<rparr>) (EKF_observe x T ns1 s) \<and>
   map_option (\<lambda>s'. elapsed ns (last_ns s')) (EKF_observe x T ns1 s) =
     map_option (\<lambda>s'. elapsed ns (last_ns s)) (EKF_observe x T ns1 s)"
  by (simp add: EKF_observe_def Let_def split: Option.bind_split)

end
